theory Spec2Isabelle
  imports Main
begin

section \<open>JavaScript values the model needs\<close>

text \<open>
  A thrown JavaScript error is a value: the name of its class and its message. Every
  \<open>throw\<close> and every rejected promise of the source is an \<open>Inl\<close> of this type, every
  normal return an \<open>Inr\<close>.
\<close>

datatype js_error = JsError (err_name: string) (message: string)

text \<open>\<open>new Error(msg)\<close>.\<close>

definition Error :: "string \<Rightarrow> js_error" where
  "Error msg = JsError ''Error'' msg"

text \<open>
  An environment variable or a query parameter is a string or \<open>undefined\<close>. The source
  tests them with \<open>!x\<close> and \<open>x ? .. : ..\<close>: \<open>undefined\<close>, \<open>null\<close> and the empty string
  are falsy, every other string is truthy.
\<close>

definition truthy :: "string option \<Rightarrow> bool" where
  "truthy s = (case s of None \<Rightarrow> False | Some v \<Rightarrow> v \<noteq> [])"

section \<open>Credential vault (database.js, functions/watch-renewal.js)\<close>

text \<open>
  CryptoJS is a third-party library; the vault is modelled over any implementation of
  the three library calls the source makes:
  \<^item> \<open>CryptoJS.AES.encrypt(text, key).toString()\<close>, which draws a random salt, here an
    explicit first argument;
  \<^item> \<open>CryptoJS.AES.decrypt(ciphertext, key)\<close>, returning a word array (type \<open>'b\<close>);
  \<^item> \<open>bytes.toString(CryptoJS.enc.Utf8)\<close>, which may throw.
\<close>

record 'b cryptojs =
  AES_encrypt :: "string \<Rightarrow> string \<Rightarrow> string \<Rightarrow> string"
  AES_decrypt :: "string \<Rightarrow> string \<Rightarrow> 'b"
  enc_Utf8 :: "'b \<Rightarrow> js_error + string"

text \<open>
  \<open>ENCRYPTION_KEY = process.env.ENCRYPTION_KEY\<close> is the second argument (\<open>key\<close>) of each
  function below. The \<open>console.warn\<close> of the pass-through branches is not modelled.
\<close>

definition encrypt :: "'b cryptojs \<Rightarrow> string option \<Rightarrow> string \<Rightarrow> string \<Rightarrow> string" where
  "encrypt L key salt text =
     (if \<not> truthy key then text
      else AES_encrypt L salt text (the key))"

definition decrypt :: "'b cryptojs \<Rightarrow> string option \<Rightarrow> string \<Rightarrow> js_error + string" where
  "decrypt L key ciphertext =
     (if \<not> truthy key then Inr ciphertext
      else enc_Utf8 L (AES_decrypt L ciphertext (the key)))"

text \<open>
  The token set of an account. \<open>refresh_token\<close> is \<open>None\<close> for \<open>null\<close> and \<open>undefined\<close>;
  \<open>expiry_date\<close> is a number of milliseconds.
\<close>

record tokens =
  access_token :: string
  refresh_token :: "string option"
  expiry_date :: "int option"

text \<open>The two calls of \<open>encrypt\<close> draw one salt each: \<open>s1\<close> and \<open>s2\<close>.\<close>

definition encryptTokens ::
  "'b cryptojs \<Rightarrow> string option \<Rightarrow> string \<Rightarrow> string \<Rightarrow> tokens \<Rightarrow> tokens" where
  "encryptTokens L key s1 s2 t =
     \<lparr> access_token = encrypt L key s1 (access_token t),
       refresh_token =
         (if truthy (refresh_token t) then Some (encrypt L key s2 (the (refresh_token t)))
          else None),
       expiry_date = expiry_date t \<rparr>"

text \<open>
  \<open>decryptTokens\<close> returns \<open>null\<close> for a missing token object; a throwing \<open>decrypt\<close>
  aborts it, the access token being decrypted first.
\<close>

definition decryptTokens ::
  "'b cryptojs \<Rightarrow> string option \<Rightarrow> tokens option \<Rightarrow> js_error + tokens option" where
  "decryptTokens L key encryptedTokens =
     (case encryptedTokens of
        None \<Rightarrow> Inr None
      | Some t \<Rightarrow>
          (case decrypt L key (access_token t) of
             Inl e \<Rightarrow> Inl e
           | Inr a \<Rightarrow>
               (if truthy (refresh_token t) then
                  (case decrypt L key (the (refresh_token t)) of
                     Inl e \<Rightarrow> Inl e
                   | Inr r \<Rightarrow>
                       Inr (Some \<lparr> access_token = a, refresh_token = Some r,
                                   expiry_date = expiry_date t \<rparr>))
                else
                  Inr (Some \<lparr> access_token = a, refresh_token = None,
                              expiry_date = expiry_date t \<rparr>))))"

text \<open>
  What the deciphering side of CryptoJS can throw. \<open>decrypt\<close> gives \<open>AES.decrypt\<close> a
  string; CryptoJS reads it as Base64 leniently, deciphers, and takes off a padding it
  does not check: none of this throws. The one \<open>throw\<close> is in
  \<open>CryptoJS.enc.Utf8.stringify\<close>:
  \<^verbatim>\<open>try { return decodeURIComponent(escape(Latin1.stringify(wordArray))); }
  catch (e) { throw new Error('Malformed UTF-8 data'); }\<close>
  The built-in decoder (here \<open>decodeURI\<close>: \<open>None\<close> when it throws) either returns the
  string the bytes encode or throws, and whatever it throws is replaced by that one
  error. \<open>CryptoJS E D U\<close> is the library with the cipher \<open>E\<close>, the decipherer \<open>D\<close>
  and the built-in decoder \<open>U\<close>.
\<close>

definition Utf8_stringify :: "('b \<Rightarrow> string option) \<Rightarrow> 'b \<Rightarrow> js_error + string" where
  "Utf8_stringify decodeURI wordArray =
     (case decodeURI wordArray of
        None \<Rightarrow> Inl (Error ''Malformed UTF-8 data'')
      | Some s \<Rightarrow> Inr s)"

definition CryptoJS ::
  "(string \<Rightarrow> string \<Rightarrow> string \<Rightarrow> string) \<Rightarrow> (string \<Rightarrow> string \<Rightarrow> 'b) \<Rightarrow> ('b \<Rightarrow> string option) \<Rightarrow>
   'b cryptojs" where
  "CryptoJS E D U = \<lparr> AES_encrypt = E, AES_decrypt = D, enc_Utf8 = Utf8_stringify U \<rparr>"

section \<open>Account store (database.js)\<close>

record watch_data =
  historyId :: string
  expiration :: int
  topicName :: string

text \<open>
  A document of the \<open>clients\<close> collection, with the fields the OAuth callback writes.
  Dates are milliseconds. \<open>email\<close> and \<open>name\<close> come from query parameters and may be
  \<open>undefined\<close>; \<open>updatedAt\<close> is absent until the store stamps it; \<open>tokens\<close> is \<open>None\<close>
  for a document without a token object.
\<close>

record client_doc =
  clientId :: string
  email :: "string option"
  name :: "string option"
  company :: string
  gmailAddress :: string
  tokens :: "tokens option"
  registeredAt :: int
  lastRenewed :: "int option"
  watchData :: "watch_data option"
  updatedAt :: "int option"

type_synonym firestore = "string \<Rightarrow> client_doc option"

text \<open>
  Each Firestore call takes the fault it is answered with: \<open>None\<close> when the call is
  served, \<open>Some e\<close> when it rejects with \<open>e\<close> (the backend is unreachable, or the
  client library refuses the data, as it does for an \<open>undefined\<close> field value). An
  \<open>update\<close> of a document that does not exist is rejected by Firestore itself.
  Document identifiers are the UUIDs the callback draws.
\<close>

definition NOT_FOUND :: js_error where
  "NOT_FOUND = Error ''5 NOT_FOUND: No document to update''"

definition doc_set_merge ::
  "js_error option \<Rightarrow> string \<Rightarrow> client_doc \<Rightarrow> firestore \<Rightarrow> js_error + firestore" where
  "doc_set_merge fault cid d db =
     (case fault of Some e \<Rightarrow> Inl e | None \<Rightarrow> Inr (db(cid \<mapsto> d)))"

definition doc_update ::
  "js_error option \<Rightarrow> string \<Rightarrow> (client_doc \<Rightarrow> client_doc) \<Rightarrow> firestore \<Rightarrow> js_error + firestore" where
  "doc_update fault cid f db =
     (case fault of
        Some e \<Rightarrow> Inl e
      | None \<Rightarrow>
          (case db cid of
             None \<Rightarrow> Inl NOT_FOUND
           | Some d \<Rightarrow> Inr (db(cid \<mapsto> f d))))"

definition doc_get ::
  "js_error option \<Rightarrow> string \<Rightarrow> firestore \<Rightarrow> js_error + client_doc option" where
  "doc_get fault cid db = (case fault of Some e \<Rightarrow> Inl e | None \<Rightarrow> Inr (db cid))"

text \<open>
  \<open>saveClient\<close>: the document written is the client data with its tokens replaced by
  \<open>encryptTokens\<close> and \<open>updatedAt\<close> stamped; every field is given, so the
  merge replaces the document. Any failure is rethrown as a fixed error, also the
  \<open>TypeError\<close> of \<open>encryptTokens\<close> reading a field of a missing token object.
\<close>

definition saveClient ::
  "'b cryptojs \<Rightarrow> string option \<Rightarrow> string \<Rightarrow> string \<Rightarrow> int \<Rightarrow> js_error option \<Rightarrow>
   client_doc \<Rightarrow> firestore \<Rightarrow> js_error + (client_doc \<times> firestore)" where
  "saveClient L key s1 s2 now fault clientData db =
     (case tokens clientData of
        None \<Rightarrow> Inl (Error ''Failed to save client data'')
      | Some t \<Rightarrow>
          (let dataToSave = clientData \<lparr> tokens := Some (encryptTokens L key s1 s2 t),
                                        updatedAt := Some now \<rparr>
           in case doc_set_merge fault (clientId clientData) dataToSave db of
                Inl e \<Rightarrow> Inl (Error ''Failed to save client data'')
              | Inr db' \<Rightarrow> Inr (clientData, db')))"

definition getClientById ::
  "'b cryptojs \<Rightarrow> string option \<Rightarrow> js_error option \<Rightarrow> string \<Rightarrow> firestore \<Rightarrow>
   js_error + client_doc option" where
  "getClientById L key fault cid db =
     (case doc_get fault cid db of
        Inl e \<Rightarrow> Inl (Error ''Failed to retrieve client data'')
      | Inr None \<Rightarrow> Inr None
      | Inr (Some d) \<Rightarrow>
          (case decryptTokens L key (tokens d) of
             Inl e \<Rightarrow> Inl (Error ''Failed to retrieve client data'')
           | Inr t \<Rightarrow> Inr (Some (d \<lparr> tokens := t \<rparr>))))"

text \<open>
  \<open>updateWatchData\<close> writes the three fields in one \<open>update\<close>, whatever \<open>watchData\<close> is
  (\<open>None\<close> is the \<open>null\<close> that \<open>stopGmailWatch\<close> passes).
\<close>

definition updateWatchData ::
  "int \<Rightarrow> js_error option \<Rightarrow> string \<Rightarrow> watch_data option \<Rightarrow> firestore \<Rightarrow> js_error + firestore" where
  "updateWatchData now fault cid wd db =
     (case doc_update fault cid
             (\<lambda>d. d \<lparr> watchData := wd, lastRenewed := Some now, updatedAt := Some now \<rparr>) db of
        Inl e \<Rightarrow> Inl (Error ''Failed to update watch data'')
      | Inr db' \<Rightarrow> Inr db')"

definition updateClientTokens ::
  "'b cryptojs \<Rightarrow> string option \<Rightarrow> string \<Rightarrow> string \<Rightarrow> int \<Rightarrow> js_error option \<Rightarrow>
   string \<Rightarrow> tokens \<Rightarrow> firestore \<Rightarrow> js_error + firestore" where
  "updateClientTokens L key s1 s2 now fault cid t db =
     (case doc_update fault cid
             (\<lambda>d. d \<lparr> tokens := Some (encryptTokens L key s1 s2 t), updatedAt := Some now \<rparr>)
             db of
        Inl e \<Rightarrow> Inl (Error ''Failed to update tokens'')
      | Inr db' \<Rightarrow> Inr db')"

section \<open>Returned objects\<close>

text \<open>
  The object literals the source returns are kept as they are written: a list of
  property names and values, in the order of the literal.
\<close>

datatype jsval =
    JUndefined
  | JNull
  | JBool bool
  | JNum int
  | JStr string
  | JDate int
  | JObj "(string \<times> jsval) list"

type_synonym js_object = "(string \<times> jsval) list"

definition keys :: "js_object \<Rightarrow> string list" where
  "keys obj = map fst obj"

section \<open>Notifier (backend/webhook.js)\<close>



text \<open>
  What an attempt does to the outside: \<open>axios.post\<close> to a URL, and \<open>delay(ms)\<close>. The
  receiver is an oracle giving the outcome of the POST made at each attempt number:
  a response, or the error \<open>axios\<close> rejects with (non-2xx status, timeout, no route).
\<close>

datatype io_event = Post string | Delay nat

record http_response =
  status :: nat
  data :: jsval







text \<open>The delivery attempts and the delays of a run, read off its events.\<close>

fun posts :: "io_event list \<Rightarrow> nat" where
  "posts [] = 0"
| "posts (Post u # evs) = Suc (posts evs)"
| "posts (Delay d # evs) = posts evs"

fun delays :: "io_event list \<Rightarrow> nat list" where
  "delays [] = []"
| "delays (Post u # evs) = delays evs"
| "delays (Delay d # evs) = d # delays evs"

text \<open>
  The cloud function has a sender of its own, also called \<open>sendRenewalWebhook\<close>
  (functions/watch-renewal.js), for the batch summary: one POST inside a \<open>try\<close> whose
  \<open>catch\<close> only logs, and no return value.
\<close>

definition sendRenewalWebhook_batch ::
  "string option \<Rightarrow> (js_error + http_response) \<Rightarrow> js_object list \<Rightarrow> jsval \<times> io_event list" where
  "sendRenewalWebhook_batch N8N_RENEWAL_WEBHOOK_URL post_outcome results =
     (if \<not> truthy N8N_RENEWAL_WEBHOOK_URL then (JUndefined, [])
      else (case post_outcome of
              Inr response \<Rightarrow> (JUndefined, [Post (the N8N_RENEWAL_WEBHOOK_URL)])
            | Inl error \<Rightarrow> (JUndefined, [Post (the N8N_RENEWAL_WEBHOOK_URL)])))"

section \<open>Subscription manager (gmail-watch.js, functions/watch-renewal.js)\<close>

text \<open>
  \<open>process.env.PUBSUB_TOPIC_PREFIX || 'gmail-watch-'\<close>, and
  \<open>process.env.FIRESTORE_PROJECT_ID\<close> as a template literal prints it.
\<close>

definition PUBSUB_TOPIC_PREFIX :: "string option \<Rightarrow> string" where
  "PUBSUB_TOPIC_PREFIX env_prefix = (if truthy env_prefix then the env_prefix else ''gmail-watch-'')"

definition template_str :: "string option \<Rightarrow> string" where
  "template_str v = (case v of None \<Rightarrow> ''undefined'' | Some x \<Rightarrow> x)"

text \<open>
  The services a renewal talks to, as oracles: the faults Pub/Sub and Firestore answer
  with, and what a call of the Gmail API through the authorised client returns for the
  credentials set on the client and the topic it is called with (the client library's
  own check and refresh of the credentials, then the API's answer).
  \<open>w_expiration\<close> is \<open>parseInt(watchResponse.data.expiration)\<close>.
\<close>

record watch_response =
  w_historyId :: string
  w_expiration :: int

record services =
  topic_exists_fault :: "js_error option"
  createTopic_fault :: "js_error option"
  users_watch :: "tokens option \<Rightarrow> string \<Rightarrow> js_error + watch_response"
  users_stop :: "tokens option \<Rightarrow> js_error option"
  fs_get_fault :: "js_error option"
  fs_update_fault :: "js_error option"

text \<open>\<open>createPubSubTopic\<close>: the set of existing topics is the state of Pub/Sub.\<close>

definition createPubSubTopic ::
  "services \<Rightarrow> string \<Rightarrow> string set \<Rightarrow> (js_error + string) \<times> string set" where
  "createPubSubTopic S tn topics =
     (case topic_exists_fault S of
        Some e \<Rightarrow> (Inl e, topics)
      | None \<Rightarrow>
          (if tn \<in> topics then (Inr tn, topics)
           else (case createTopic_fault S of
                   Some e \<Rightarrow> (Inl e, topics)
                 | None \<Rightarrow> (Inr tn, insert tn topics))))"

text \<open>
  \<open>client.watchData?.topicName || `${PUBSUB_TOPIC_PREFIX}${id}`\<close>, where \<open>id\<close> is
  \<open>client.clientId\<close> in \<open>renewWatch\<close> and the argument \<open>clientId\<close> in \<open>renewGmailWatch\<close>.
\<close>

definition topic_of :: "string \<Rightarrow> string \<Rightarrow> watch_data option \<Rightarrow> string" where
  "topic_of prefix cid wdo =
     (case wdo of
        None \<Rightarrow> prefix @ cid
      | Some wd \<Rightarrow> (if topicName wd \<noteq> [] then topicName wd else prefix @ cid))"

definition fullTopicName :: "string option \<Rightarrow> string \<Rightarrow> string" where
  "fullTopicName project tn = ''projects/'' @ template_str project @ ''/topics/'' @ tn"

text \<open>
  \<open>renewWatch(client)\<close> of functions/watch-renewal.js, which uses the module's own
  \<open>oauth2Client\<close>. \<open>client\<close> is a stored document (tokens encrypted). The result is the
  value the promise resolves to or the error it rejects with, and the states of
  Firestore and Pub/Sub afterwards. First the body of its \<open>try\<close>, then the function with
  its \<open>catch\<close>.
\<close>

definition renewWatch_try ::
  "'b cryptojs \<Rightarrow> string option \<Rightarrow> string \<Rightarrow> string option \<Rightarrow> services \<Rightarrow> int \<Rightarrow>
   client_doc \<Rightarrow> firestore \<Rightarrow> string set \<Rightarrow> (js_error + js_object) \<times> firestore \<times> string set" where
  "renewWatch_try L key prefix project S now client db topics =
     (case decryptTokens L key (tokens client) of
        Inl e \<Rightarrow> (Inl e, db, topics)
      | Inr toks \<Rightarrow>
          (let tn = topic_of prefix (clientId client) (watchData client) in
           case createPubSubTopic S tn topics of
             (Inl e, topics') \<Rightarrow> (Inl e, db, topics')
           | (Inr _, topics') \<Rightarrow>
               (case users_watch S toks (fullTopicName project tn) of
                  Inl e \<Rightarrow> (Inl e, db, topics')
                | Inr w \<Rightarrow>
                    (case doc_update (fs_update_fault S) (clientId client)
                            (\<lambda>d. d \<lparr> watchData := Some \<lparr> historyId = w_historyId w,
                                                          expiration = w_expiration w,
                                                          topicName = tn \<rparr>,
                                     lastRenewed := Some now, updatedAt := Some now \<rparr>) db of
                       Inl e \<Rightarrow> (Inl e, db, topics')
                     | Inr db' \<Rightarrow>
                         (Inr [(''success'', JBool True),
                               (''clientId'', JStr (clientId client)),
                               (''gmailAddress'', JStr (gmailAddress client)),
                               (''newExpiration'', JDate (w_expiration w)),
                               (''renewedAt'', JDate now)], db', topics')))))"

definition renewWatch ::
  "'b cryptojs \<Rightarrow> string option \<Rightarrow> string \<Rightarrow> string option \<Rightarrow> services \<Rightarrow> int \<Rightarrow>
   client_doc \<Rightarrow> firestore \<Rightarrow> string set \<Rightarrow> (js_error + js_object) \<times> firestore \<times> string set" where
  "renewWatch L key prefix project S now client db topics =
     (case renewWatch_try L key prefix project S now client db topics of
        (Inr r, db', topics') \<Rightarrow> (Inr r, db', topics')
      | (Inl error, db', topics') \<Rightarrow>
          (Inr [(''success'', JBool False),
                (''clientId'', JStr (clientId client)),
                (''gmailAddress'', JStr (gmailAddress client)),
                (''error'', JStr (message error)),
                (''renewedAt'', JDate now)], db', topics'))"

text \<open>
  gmail-watch.js takes its OAuth client from auth.js:
  \<open>const { getOAuth2Client } = require('./auth')\<close>, read once, when gmail-watch.js is
  loaded. auth.js in turn requires gmail-watch.js, before it assigns its own
  \<open>module.exports\<close>. So the name is bound to the function only when gmail-watch.js is
  the first of the two to be loaded; when auth.js is loaded first, gmail-watch.js is
  loaded in the middle of it, sees the still empty exports of auth.js, and binds the
  name to \<open>undefined\<close>: every later call \<open>getOAuth2Client()\<close> throws a \<open>TypeError\<close>.
  server.js requires auth.js first.
\<close>

datatype load_order = auth_first | gmail_watch_first

definition server_load_order :: load_order where
  "server_load_order = auth_first"

definition getOAuth2Client :: "load_order \<Rightarrow> js_error + unit" where
  "getOAuth2Client lo =
     (case lo of
        auth_first \<Rightarrow> Inl (JsError ''TypeError'' ''getOAuth2Client is not a function'')
      | gmail_watch_first \<Rightarrow> Inr ())"

text \<open>
  \<open>renewGmailWatch(clientId)\<close> of gmail-watch.js loads the account itself, asks for
  the OAuth client, and writes through \<open>updateWatchData\<close>.
\<close>

definition js_watch_data :: "watch_data \<Rightarrow> jsval" where
  "js_watch_data wd =
     JObj [(''historyId'', JStr (historyId wd)), (''expiration'', JDate (expiration wd)),
           (''topicName'', JStr (topicName wd))]"

definition renewGmailWatch_try ::
  "'b cryptojs \<Rightarrow> string option \<Rightarrow> load_order \<Rightarrow> string \<Rightarrow> string option \<Rightarrow> services \<Rightarrow> int \<Rightarrow>
   string \<Rightarrow> firestore \<Rightarrow> string set \<Rightarrow> (js_error + js_object) \<times> firestore \<times> string set" where
  "renewGmailWatch_try L key lo prefix project S now cid db topics =
     (case getClientById L key (fs_get_fault S) cid db of
        Inl e \<Rightarrow> (Inl e, db, topics)
      | Inr None \<Rightarrow> (Inl (Error ''Client not found''), db, topics)
      | Inr (Some client) \<Rightarrow>
          (case getOAuth2Client lo of
             Inl e \<Rightarrow> (Inl e, db, topics)
           | Inr oauth2Client \<Rightarrow>
               (let tn = topic_of prefix cid (watchData client) in
                case createPubSubTopic S tn topics of
                  (Inl e, topics') \<Rightarrow> (Inl e, db, topics')
                | (Inr _, topics') \<Rightarrow>
                    (case users_watch S (tokens client) (fullTopicName project tn) of
                       Inl e \<Rightarrow> (Inl e, db, topics')
                     | Inr w \<Rightarrow>
                         (let wd = \<lparr> historyId = w_historyId w, expiration = w_expiration w,
                                     topicName = tn \<rparr> in
                          case updateWatchData now (fs_update_fault S) cid (Some wd) db of
                            Inl e \<Rightarrow> (Inl e, db, topics')
                          | Inr db' \<Rightarrow>
                              (Inr [(''success'', JBool True),
                                    (''clientId'', JStr cid),
                                    (''gmailAddress'', JStr (gmailAddress client)),
                                    (''watchData'', js_watch_data wd),
                                    (''renewedAt'', JDate now)], db', topics'))))))"

definition renewGmailWatch ::
  "'b cryptojs \<Rightarrow> string option \<Rightarrow> load_order \<Rightarrow> string \<Rightarrow> string option \<Rightarrow> services \<Rightarrow> int \<Rightarrow>
   string \<Rightarrow> firestore \<Rightarrow> string set \<Rightarrow> (js_error + js_object) \<times> firestore \<times> string set" where
  "renewGmailWatch L key lo prefix project S now cid db topics =
     (case renewGmailWatch_try L key lo prefix project S now cid db topics of
        (Inr r, db', topics') \<Rightarrow> (Inr r, db', topics')
      | (Inl error, db', topics') \<Rightarrow>
          (Inr [(''success'', JBool False),
                (''clientId'', JStr cid),
                (''error'', JStr (message error)),
                (''renewedAt'', JDate now)], db', topics'))"

text \<open>\<open>stopGmailWatch(clientId)\<close>: its \<open>catch\<close> rethrows.\<close>

definition stopGmailWatch ::
  "'b cryptojs \<Rightarrow> string option \<Rightarrow> load_order \<Rightarrow> services \<Rightarrow> int \<Rightarrow> string \<Rightarrow> firestore \<Rightarrow>
   (js_error + js_object) \<times> firestore" where
  "stopGmailWatch L key lo S now cid db =
     (case getClientById L key (fs_get_fault S) cid db of
        Inl e \<Rightarrow> (Inl e, db)
      | Inr None \<Rightarrow> (Inl (Error ''Client not found''), db)
      | Inr (Some client) \<Rightarrow>
          (case getOAuth2Client lo of
             Inl e \<Rightarrow> (Inl e, db)
           | Inr oauth2Client \<Rightarrow>
               (case users_stop S (tokens client) of
                  Some e \<Rightarrow> (Inl e, db)
                | None \<Rightarrow>
                    (case updateWatchData now (fs_update_fault S) cid None db of
                       Inl e \<Rightarrow> (Inl e, db)
                     | Inr db' \<Rightarrow>
                         (Inr [(''success'', JBool True),
                               (''message'', JStr ''Gmail watch stopped successfully'')],
                          db')))))"

section \<open>OAuth flow controller (auth.js)\<close>

record start_query =
  q_email :: "string option"
  q_name :: "string option"
  q_company :: "string option"

record callback_query =
  q_code :: "string option"
  q_state :: "string option"
  q_error :: "string option"

record registrationData =
  rd_email :: "string option"
  rd_name :: "string option"
  rd_company :: string
  rd_state :: string

text \<open>\<open>req.session.registrationData\<close>: \<open>None\<close> when the session has no binding.\<close>

type_synonym session = "registrationData option"

text \<open>
  A response: \<open>res.status(n).send(text)\<close>, \<open>res.status(n).json(obj)\<close>,
  \<open>res.redirect(url)\<close>, and the redirect to
  \<open>/success?gmail=${encodeURIComponent(gmailAddress)}&timestamp=${Date.now()}\<close>, kept as
  its two parameters.
\<close>

datatype response =
    Send nat string
  | SendJson nat js_object
  | Redirect string
  | Redirect_success string int

fun status_of :: "response \<Rightarrow> nat" where
  "status_of (Send n b) = n"
| "status_of (SendJson n b) = n"
| "status_of (Redirect u) = 302"
| "status_of (Redirect_success g t) = 302"

text \<open>
  \<open>GET /auth/google\<close>. \<open>new_state\<close> is the \<open>uuidv4()\<close> drawn, \<open>generateAuthUrl\<close> the
  library call on that state.
\<close>

definition auth_google ::
  "(string \<Rightarrow> js_error + string) \<Rightarrow> string \<Rightarrow> start_query \<Rightarrow> session \<Rightarrow> response \<times> session" where
  "auth_google generateAuthUrl new_state q sess =
     (let sess' = Some \<lparr> rd_email = q_email q, rd_name = q_name q,
                         rd_company = (if truthy (q_company q) then the (q_company q) else []),
                         rd_state = new_state \<rparr>
      in case generateAuthUrl new_state of
           Inl e \<Rightarrow> (Send 500 ''Failed to initiate authentication'', sess')
         | Inr authUrl \<Rightarrow> (Redirect authUrl, sess'))"

text \<open>
  The identity provider, as oracles: the token exchange for a code, and the profile
  endpoint for the tokens exchanged.
\<close>

record provider =
  getToken :: "string option \<Rightarrow> js_error + tokens"
  userinfo_email :: "tokens \<Rightarrow> js_error + string"

text \<open>The calls the callback starts and does not wait for.\<close>

datatype task = SetupGmailWatch string | SendRegistrationWebhook client_doc

record callback_result =
  cb_response :: response
  cb_session :: session
  cb_db :: firestore
  cb_tasks :: "task list"

text \<open>
  \<open>GET /auth/callback\<close>. \<open>new_id\<close> is the \<open>uuidv4()\<close> drawn for \<open>clientId\<close>, \<open>now\<close>
  the clock, \<open>fault\<close> what Firestore answers the \<open>set\<close> with. Every exception of the
  \<open>try\<close> ends in the 500 response of the \<open>catch\<close>.
\<close>

definition csrf_response :: response where
  "csrf_response = Send 400 ''Invalid state parameter. Possible CSRF attack.''"

definition auth_callback ::
  "'b cryptojs \<Rightarrow> string option \<Rightarrow> string \<Rightarrow> string \<Rightarrow> provider \<Rightarrow> string \<Rightarrow> int \<Rightarrow>
   js_error option \<Rightarrow> callback_query \<Rightarrow> session \<Rightarrow> firestore \<Rightarrow> callback_result" where
  "auth_callback L key s1 s2 P new_id now fault q sess db =
     (let failed = \<lparr> cb_response = Send 500 ''Authentication failed. Please try again.'',
                      cb_session = sess, cb_db = db, cb_tasks = [] \<rparr> in
      if truthy (q_error q) then
        \<lparr> cb_response = Send 400 (''Authentication failed: '' @ the (q_error q)),
          cb_session = sess, cb_db = db, cb_tasks = [] \<rparr>
      else
        (case sess of
           None \<Rightarrow> \<lparr> cb_response = csrf_response, cb_session = sess, cb_db = db, cb_tasks = [] \<rparr>
         | Some rd \<Rightarrow>
             (if Some (rd_state rd) \<noteq> q_state q then
                \<lparr> cb_response = csrf_response, cb_session = sess, cb_db = db, cb_tasks = [] \<rparr>
              else
                (case getToken P (q_code q) of
                   Inl e \<Rightarrow> failed
                 | Inr toks \<Rightarrow>
                     (case userinfo_email P toks of
                        Inl e \<Rightarrow> failed
                      | Inr gmail \<Rightarrow>
                          (let clientData =
                                 \<lparr> clientId = new_id, email = rd_email rd, name = rd_name rd,
                                   company = rd_company rd, gmailAddress = gmail,
                                   tokens = Some \<lparr> access_token = access_token toks,
                                                   refresh_token = refresh_token toks,
                                                   expiry_date = expiry_date toks \<rparr>,
                                   registeredAt = now, lastRenewed = None, watchData = None,
                                   updatedAt = None \<rparr>
                           in case saveClient L key s1 s2 now fault clientData db of
                                Inl e \<Rightarrow> failed
                              | Inr (saved, db') \<Rightarrow>
                                  \<lparr> cb_response = Redirect_success gmail now,
                                    cb_session = None, cb_db = db',
                                    cb_tasks = [SetupGmailWatch new_id,
                                                SendRegistrationWebhook clientData] \<rparr>))))))"

section \<open>Push endpoint (server.js)\<close>

text \<open>
  \<open>POST /pubsub/push\<close>. \<open>req.body\<close> is the parsed JSON body; \<open>atob\<close> stands for
  \<open>Buffer.from(data, 'base64').toString()\<close> and \<open>parse\<close> for \<open>JSON.parse\<close>, which
  throws on text that is not JSON.
\<close>

record push_message =
  msg_data :: "string option"

record push_body =
  body_message :: "push_message option"

definition pubsub_push ::
  "(string \<Rightarrow> string) \<Rightarrow> (string \<Rightarrow> js_error + jsval) \<Rightarrow> push_body \<Rightarrow> response" where
  "pubsub_push atob parse body =
     (case body_message body of
        None \<Rightarrow> SendJson 400 [(''error'', JStr ''Invalid Pub/Sub message'')]
      | Some m \<Rightarrow>
          (if \<not> truthy (msg_data m) then
             SendJson 400 [(''error'', JStr ''Invalid Pub/Sub message'')]
           else
             (case parse (atob (the (msg_data m))) of
                Inl e \<Rightarrow> SendJson 500 [(''error'', JStr ''Failed to process notification'')]
              | Inr notification \<Rightarrow> Send 200 ''OK'')))"

definition is_2xx :: "nat \<Rightarrow> bool" where
  "is_2xx n = (200 \<le> n \<and> n < 300)"

section \<open>Sample data\<close>

text \<open>
  Concrete values at which the theorems below are instantiated: a stand-in for the
  cipher library (it prepends a two-character salt to the reversed text), a token set,
  an account as the callback builds it, an identity provider that grants the sample
  tokens for the mailbox \<open>ann@gmail.com\<close>, and the two requests of a handshake.
\<close>

definition stub_cryptojs :: "string cryptojs" where
  "stub_cryptojs =
     \<lparr> AES_encrypt = (\<lambda>salt text k. salt @ rev text),
       AES_decrypt = (\<lambda>c k. rev (drop 2 c)),
       enc_Utf8 = Inr \<rparr>"

definition sample_tokens :: tokens where
  "sample_tokens =
     \<lparr> access_token = ''ya29.a0'', refresh_token = Some ''1//0g'',
       expiry_date = Some 1700000003600 \<rparr>"

definition sample_client :: client_doc where
  "sample_client =
     \<lparr> clientId = ''c1'', email = Some ''owner@example.org'', name = Some ''Ann'',
       company = ''Acme'', gmailAddress = ''ann@gmail.com'', tokens = Some sample_tokens,
       registeredAt = 1700000000000, lastRenewed = Some 1700000001000, watchData = None,
       updatedAt = None \<rparr>"

definition sample_provider :: provider where
  "sample_provider =
     \<lparr> getToken = (\<lambda>code. Inr sample_tokens),
       userinfo_email = (\<lambda>t. Inr ''ann@gmail.com'') \<rparr>"

definition sample_start :: start_query where
  "sample_start =
     \<lparr> q_email = Some ''owner@example.org'', q_name = Some ''Ann'', q_company = Some ''Acme'' \<rparr>"

definition sample_callback :: callback_query where
  "sample_callback = \<lparr> q_code = Some ''4/0Ab'', q_state = Some ''st-1'', q_error = None \<rparr>"

text \<open>
  A cipher stand-in whose deciphering depends on the key: the ciphertext is the salt,
  the key and the text; deciphering drops as many characters as the salt and the key
  it is given have. Every byte sequence decodes.
\<close>

definition keyed_cryptojs :: "string cryptojs" where
  "keyed_cryptojs =
     CryptoJS (\<lambda>salt text k. salt @ k @ text) (\<lambda>c k. drop (2 + length k) c) Some"

text \<open>
  An account registered at 1700000000000 whose provider granted no refresh token and an
  access token good for one hour, stored with the encryption key unset.
\<close>

definition sample_client_no_refresh :: client_doc where
  "sample_client_no_refresh =
     sample_client \<lparr> tokens := Some \<lparr> access_token = ''ya29.a0'', refresh_token = None,
                                      expiry_date = Some 1700003600000 \<rparr> \<rparr>"

text \<open>
  A Gmail stand-in that treats the credentials at the time \<open>now\<close> as the authorised
  client (google-auth-library) does before it sends a request: an access token that
  does not expire within five minutes is used as it is; otherwise the client tries to
  refresh it, and throws \<open>No refresh token is set.\<close> when there is none. A request that
  is sent is answered with a watch of seven days.
\<close>

definition sample_gmail :: "int \<Rightarrow> tokens option \<Rightarrow> string \<Rightarrow> js_error + watch_response" where
  "sample_gmail now creds tn =
     (case creds of
        None \<Rightarrow> Inl (JsError ''TypeError'' ''Cannot read properties of null'')
      | Some c \<Rightarrow>
          (if access_token c = [] \<and> \<not> truthy (refresh_token c) then
             Inl (Error ''No access, refresh token, API key or refresh handler callback is set.'')
           else if access_token c \<noteq> [] \<and>
                   (case expiry_date c of None \<Rightarrow> True | Some x \<Rightarrow> now + 300000 < x) then
             Inr \<lparr> w_historyId = ''4242'', w_expiration = now + 604800000 \<rparr>
           else if \<not> truthy (refresh_token c) then
             Inl (Error ''No refresh token is set.'')
           else
             Inr \<lparr> w_historyId = ''4242'', w_expiration = now + 604800000 \<rparr>))"

definition sample_services :: "int \<Rightarrow> services" where
  "sample_services now =
     \<lparr> topic_exists_fault = None, createTopic_fault = None,
       users_watch = sample_gmail now,
       users_stop = (\<lambda>creds. None),
       fs_get_fault = None, fs_update_fault = None \<rparr>"

section \<open>Properties of the credential vault\<close>

lemma truthy_simps:
  "truthy None = False" "truthy (Some []) = False" "truthy (Some (c # cs)) = True"
  by (simp_all add: truthy_def)

text \<open>
  In pass-through mode (the key unset or empty) encrypting and then decrypting gives
  every string back, whatever the library is.
\<close>

lemma pass_through_roundtrip:
  "decrypt L None (encrypt L None salt text) = Inr text"
  "decrypt L (Some []) (encrypt L (Some []) salt text) = Inr text"
  by (simp_all add: decrypt_def encrypt_def truthy_simps)

lemma decrypt_CryptoJS:
  "truthy k \<Longrightarrow>
   decrypt (CryptoJS E D U) k c =
     (case U (D c (the k)) of None \<Rightarrow> Inl (Error ''Malformed UTF-8 data'') | Some s \<Rightarrow> Inr s)"
  by (simp add: decrypt_def CryptoJS_def Utf8_stringify_def)

text \<open>
  C4, as stated: for any two distinct keys, both set, decrypting under the second what
  was encrypted under the first fails with an error named \<open>DecryptionError\<close>. It is
  false, and at every input: the source defines no such error and checks nothing, and
  the one error the library can throw on the way is its \<open>Error('Malformed UTF-8 data')\<close>.
  With the keyed stand-in, the text \<open>ya29.a0\<close> encrypted under \<open>key-A\<close> and decrypted
  under \<open>other-key-B\<close> comes back as the string \<open>0\<close>, handed to the caller as the token.
\<close>

theorem wrong_key_counterexample:
  "\<not> (\<forall>E D (U :: string \<Rightarrow> string option) k1 k2 salt text.
        truthy k1 \<and> truthy k2 \<and> k1 \<noteq> k2 \<longrightarrow>
        (\<exists>e. decrypt (CryptoJS E D U) k2 (encrypt (CryptoJS E D U) k1 salt text) = Inl e \<and>
             err_name e = ''DecryptionError''))"
proof
  assume a: "\<forall>E D (U :: string \<Rightarrow> string option) k1 k2 salt text.
        truthy k1 \<and> truthy k2 \<and> k1 \<noteq> k2 \<longrightarrow>
        (\<exists>e. decrypt (CryptoJS E D U) k2 (encrypt (CryptoJS E D U) k1 salt text) = Inl e \<and>
             err_name e = ''DecryptionError'')"
  have "\<exists>e. decrypt (CryptoJS (\<lambda>salt text k. salt @ k @ text) (\<lambda>c k. drop (2 + length k) c) Some)
               (Some ''other-key-B'')
               (encrypt (CryptoJS (\<lambda>salt text k. salt @ k @ text)
                           (\<lambda>c k. drop (2 + length k) c) Some)
                  (Some ''key-A'') ''s8'' ''ya29.a0'') = Inl e \<and>
             err_name e = ''DecryptionError''"
    by (rule a[rule_format]) (simp add: truthy_simps)
  then show False
    by (simp add: decrypt_CryptoJS truthy_simps)
qed

text \<open>
  C4, amended. Decrypting with a set key never yields a \<open>DecryptionError\<close>, whatever
  key the ciphertext was made with. The outcome is the library's: when the deciphered
  bytes are not valid UTF-8, its generic \<open>Error('Malformed UTF-8 data')\<close> goes to the
  caller; when they are, the string they decode to (the plaintext under the right key,
  a garbled or empty one under another) is returned as the value, unchecked.
\<close>

theorem wrong_key_outcome:
  assumes "truthy k2"
  shows "(U (D c (the k2)) = None \<longrightarrow>
            decrypt (CryptoJS E D U) k2 c = Inl (Error ''Malformed UTF-8 data'')) \<and>
         (U (D c (the k2)) = Some s \<longrightarrow> decrypt (CryptoJS E D U) k2 c = Inr s) \<and>
         (\<forall>e. decrypt (CryptoJS E D U) k2 c = Inl e \<longrightarrow>
               e = Error ''Malformed UTF-8 data'' \<and> err_name e \<noteq> ''DecryptionError'')"
  using assms by (auto simp: decrypt_CryptoJS Error_def split: option.splits)

theorem wrong_key_outcome_witness:
  "decrypt keyed_cryptojs (Some ''other-key-B'')
     (encrypt keyed_cryptojs (Some ''key-A'') ''s8'' ''ya29.a0'') = Inr ''0''"
proof -
  let ?E = "\<lambda>salt text k :: string. salt @ k @ text"
  let ?D = "\<lambda>c k :: string. drop (2 + length k) c"
  have k2: "truthy (Some ''other-key-B'')"
    by (simp add: truthy_simps)
  have c: "encrypt (CryptoJS ?E ?D Some) (Some ''key-A'') ''s8'' ''ya29.a0'' = ''s8key-Aya29.a0''"
    by (simp add: encrypt_def truthy_simps CryptoJS_def)
  have u: "Some (?D ''s8key-Aya29.a0'' (the (Some ''other-key-B''))) = Some ''0''"
    by simp
  have "decrypt (CryptoJS ?E ?D Some) (Some ''other-key-B'') ''s8key-Aya29.a0'' = Inr ''0''"
    by (rule wrong_key_outcome[where U = Some and D = ?D and E = ?E and c = "''s8key-Aya29.a0''"
               and s = "''0''", OF k2, THEN conjunct2, THEN conjunct1, rule_format, OF u])
  then show ?thesis
    unfolding keyed_cryptojs_def c .
qed

section \<open>Properties of the account store\<close>

lemma encryptTokens_key_set:
  "truthy key \<Longrightarrow>
   encryptTokens L key s1 s2 t =
     \<lparr> access_token = AES_encrypt L s1 (access_token t) (the key),
       refresh_token = (if truthy (refresh_token t)
                        then Some (AES_encrypt L s2 (the (refresh_token t)) (the key)) else None),
       expiry_date = expiry_date t \<rparr>"
  by (simp add: encryptTokens_def encrypt_def)

lemma sample_client_fields:
  "clientId sample_client = ''c1''" "tokens sample_client = Some sample_tokens"
  "lastRenewed sample_client = Some 1700000001000" "gmailAddress sample_client = ''ann@gmail.com''"
  "watchData sample_client = None"
  by (simp_all add: sample_client_def)

lemma saveClient_sample:
  "saveClient stub_cryptojs (Some ''k1'') ''s1'' ''s2'' 1700000000500 None sample_client Map.empty
     = Inr (sample_client,
            [''c1'' \<mapsto> sample_client
               \<lparr> tokens := Some (encryptTokens stub_cryptojs (Some ''k1'') ''s1'' ''s2'' sample_tokens),
                 updatedAt := Some 1700000000500 \<rparr>])"
  by (simp add: saveClient_def doc_set_merge_def sample_client_fields)

text \<open>
  C6, as stated: with the key set, the stored expiry is never the plaintext expiry. It
  is false: \<open>encryptTokens\<close> copies \<open>expiry_date\<close> as it is. Saving the sample account
  (expiry 1700000003600) under the key \<open>k1\<close> stores the expiry 1700000003600.
\<close>

theorem expiry_plaintext_counterexample:
  "\<not> (\<forall>(L :: string cryptojs) key s1 s2 now fault cd t x db r db'.
        truthy key \<and> tokens cd = Some t \<and> expiry_date t = Some x \<and>
        saveClient L key s1 s2 now fault cd db = Inr (r, db') \<longrightarrow>
        map_option (map_option expiry_date \<circ> tokens) (db' (clientId cd)) \<noteq> Some (Some (Some x)))"
proof
  assume a: "\<forall>(L :: string cryptojs) key s1 s2 now fault cd t x db r db'.
        truthy key \<and> tokens cd = Some t \<and> expiry_date t = Some x \<and>
        saveClient L key s1 s2 now fault cd db = Inr (r, db') \<longrightarrow>
        map_option (map_option expiry_date \<circ> tokens) (db' (clientId cd)) \<noteq> Some (Some (Some x))"
  let ?stored = "sample_client
     \<lparr> tokens := Some (encryptTokens stub_cryptojs (Some ''k1'') ''s1'' ''s2'' sample_tokens),
       updatedAt := Some 1700000000500 \<rparr>"
  have x: "expiry_date sample_tokens = Some 1700000003600"
    by (simp add: sample_tokens_def)
  have k: "truthy (Some ''k1'')"
    by (simp add: truthy_simps)
  have "map_option (map_option expiry_date \<circ> tokens) ([''c1'' \<mapsto> ?stored] (clientId sample_client))
          \<noteq> Some (Some (Some 1700000003600))"
    using k sample_client_fields(2) x saveClient_sample by (intro a[rule_format]) blast
  then show False
    by (simp add: sample_client_fields encryptTokens_def x)
qed

text \<open>
  C6, amended. With the key set, the document written by \<open>saveClient\<close> and by
  \<open>updateClientTokens\<close> holds the access token as the library's ciphertext of it, the
  refresh token as the library's ciphertext of it when one is present (and \<open>null\<close>
  otherwise), and the expiry unchanged.
\<close>

theorem stored_credentials_key_set:
  assumes "truthy key"
  shows "(saveClient L key s1 s2 now fault cd db = Inr (r, db') \<and> tokens cd = Some t \<longrightarrow>
            map_option tokens (db' (clientId cd)) =
              Some (Some \<lparr> access_token = AES_encrypt L s1 (access_token t) (the key),
                           refresh_token =
                             (if truthy (refresh_token t)
                              then Some (AES_encrypt L s2 (the (refresh_token t)) (the key))
                              else None),
                           expiry_date = expiry_date t \<rparr>)) \<and>
         (updateClientTokens L key s1 s2 now fault cid t db = Inr db'' \<longrightarrow>
            map_option tokens (db'' cid) =
              Some (Some \<lparr> access_token = AES_encrypt L s1 (access_token t) (the key),
                           refresh_token =
                             (if truthy (refresh_token t)
                              then Some (AES_encrypt L s2 (the (refresh_token t)) (the key))
                              else None),
                           expiry_date = expiry_date t \<rparr>))"
proof (intro conjI impI)
  assume "saveClient L key s1 s2 now fault cd db = Inr (r, db') \<and> tokens cd = Some t"
  then show "map_option tokens (db' (clientId cd)) =
              Some (Some \<lparr> access_token = AES_encrypt L s1 (access_token t) (the key),
                           refresh_token =
                             (if truthy (refresh_token t)
                              then Some (AES_encrypt L s2 (the (refresh_token t)) (the key))
                              else None),
                           expiry_date = expiry_date t \<rparr>)"
    using assms
    by (auto simp: saveClient_def doc_set_merge_def encryptTokens_key_set Let_def
             split: option.splits sum.splits)
next
  assume "updateClientTokens L key s1 s2 now fault cid t db = Inr db''"
  then show "map_option tokens (db'' cid) =
              Some (Some \<lparr> access_token = AES_encrypt L s1 (access_token t) (the key),
                           refresh_token =
                             (if truthy (refresh_token t)
                              then Some (AES_encrypt L s2 (the (refresh_token t)) (the key))
                              else None),
                           expiry_date = expiry_date t \<rparr>)"
    using assms
    by (auto simp: updateClientTokens_def doc_update_def encryptTokens_key_set
             split: option.splits sum.splits)
qed

theorem stored_credentials_key_set_witness:
  "map_option tokens
     ([''c1'' \<mapsto> sample_client
         \<lparr> tokens := Some (encryptTokens stub_cryptojs (Some ''k1'') ''s1'' ''s2'' sample_tokens),
           updatedAt := Some 1700000000500 \<rparr>] ''c1'')
   = Some (Some \<lparr> access_token = ''s10a.92ay'', refresh_token = Some ''s2g0//1'',
                  expiry_date = Some 1700000003600 \<rparr>)"
proof -
  have k: "truthy (Some ''k1'')"
    by (simp add: truthy_simps)
  have "map_option tokens
          ([''c1'' \<mapsto> sample_client
              \<lparr> tokens := Some (encryptTokens stub_cryptojs (Some ''k1'') ''s1'' ''s2'' sample_tokens),
                updatedAt := Some 1700000000500 \<rparr>] (clientId sample_client))
        = Some (Some \<lparr> access_token = AES_encrypt stub_cryptojs ''s1'' (access_token sample_tokens) (the (Some ''k1'')),
                       refresh_token =
                         (if truthy (refresh_token sample_tokens)
                          then Some (AES_encrypt stub_cryptojs ''s2'' (the (refresh_token sample_tokens)) (the (Some ''k1'')))
                          else None),
                       expiry_date = expiry_date sample_tokens \<rparr>)"
    using saveClient_sample sample_client_fields(2)
    by (intro stored_credentials_key_set[OF k, THEN conjunct1, rule_format]) blast
  then show ?thesis
    by (simp add: sample_client_fields sample_tokens_def stub_cryptojs_def truthy_simps)
qed

lemma updateWatchData_result:
  "updateWatchData now fault cid wd db = Inr db' \<Longrightarrow>
   \<exists>d. db cid = Some d \<and>
       db' = db(cid \<mapsto> d \<lparr> watchData := wd, lastRenewed := Some now, updatedAt := Some now \<rparr>)"
  by (auto simp: updateWatchData_def doc_update_def split: option.splits sum.splits)

text \<open>
  C10, as stated: clearing the subscription leaves \<open>lastRenewed\<close> as it was. It is false:
  \<open>updateWatchData\<close> writes \<open>lastRenewed: new Date()\<close> in the same update whatever the
  watch data is. Clearing the sample account (last renewed at 1700000001000) at time
  1700000009000 leaves it last renewed at 1700000009000.
\<close>

theorem clearing_restamps_counterexample:
  "\<not> (\<forall>now fault cid db db'. updateWatchData now fault cid None db = Inr db' \<longrightarrow>
         map_option lastRenewed (db' cid) = map_option lastRenewed (db cid))"
proof
  assume a: "\<forall>now fault cid db db'. updateWatchData now fault cid None db = Inr db' \<longrightarrow>
         map_option lastRenewed (db' cid) = map_option lastRenewed (db cid)"
  let ?db = "[''c1'' \<mapsto> sample_client]"
  let ?db' = "?db(''c1'' \<mapsto> sample_client \<lparr> watchData := None, lastRenewed := Some 1700000009000,
                                               updatedAt := Some 1700000009000 \<rparr>)"
  have u: "updateWatchData 1700000009000 None ''c1'' None ?db = Inr ?db'"
    by (simp add: updateWatchData_def doc_update_def)
  have "map_option lastRenewed (?db' ''c1'') = map_option lastRenewed (?db ''c1'')"
    using u by (rule a[rule_format])
  then show False
    by (simp add: sample_client_fields)
qed

text \<open>
  C10, amended. Every successful \<open>updateWatchData\<close> stamps \<open>lastRenewed\<close> with the
  current time, whether it sets the subscription or clears it (\<open>wd\<close> is any watch data
  or \<open>None\<close>, the \<open>null\<close> that teardown passes).
\<close>

theorem updateWatchData_always_stamps:
  "updateWatchData now fault cid wd db = Inr db' \<longrightarrow>
     map_option lastRenewed (db' cid) = Some (Some now) \<and>
     map_option watchData (db' cid) = Some wd"
proof
  assume "updateWatchData now fault cid wd db = Inr db'"
  from updateWatchData_result[OF this]
  show "map_option lastRenewed (db' cid) = Some (Some now) \<and>
        map_option watchData (db' cid) = Some wd"
    by auto
qed

theorem updateWatchData_always_stamps_witness:
  "map_option lastRenewed
     (([''c1'' \<mapsto> sample_client](''c1'' \<mapsto> sample_client
          \<lparr> watchData := None, lastRenewed := Some 1700000009000,
            updatedAt := Some 1700000009000 \<rparr>)) ''c1'') = Some (Some 1700000009000) \<and>
   map_option lastRenewed
     (([''c1'' \<mapsto> sample_client](''c1'' \<mapsto> sample_client
          \<lparr> watchData := Some \<lparr> historyId = ''4242'', expiration = 1700604809000,
                                  topicName = ''gmail-watch-c1'' \<rparr>,
            lastRenewed := Some 1700000009000,
            updatedAt := Some 1700000009000 \<rparr>)) ''c1'') = Some (Some 1700000009000)"
proof -
  let ?db = "[''c1'' \<mapsto> sample_client]"
  let ?wd = "\<lparr> historyId = ''4242'', expiration = 1700604809000,
                topicName = ''gmail-watch-c1'' \<rparr>"
  let ?cleared = "?db(''c1'' \<mapsto> sample_client \<lparr> watchData := None,
                          lastRenewed := Some 1700000009000, updatedAt := Some 1700000009000 \<rparr>)"
  let ?set = "?db(''c1'' \<mapsto> sample_client \<lparr> watchData := Some ?wd,
                          lastRenewed := Some 1700000009000, updatedAt := Some 1700000009000 \<rparr>)"
  have u: "updateWatchData 1700000009000 None ''c1'' None ?db = Inr ?cleared"
    by (simp add: updateWatchData_def doc_update_def)
  have v: "updateWatchData 1700000009000 None ''c1'' (Some ?wd) ?db = Inr ?set"
    by (simp add: updateWatchData_def doc_update_def)
  from updateWatchData_always_stamps[rule_format, OF u, THEN conjunct1]
       updateWatchData_always_stamps[rule_format, OF v, THEN conjunct1]
  show ?thesis
    by (rule conjI)
qed

section \<open>Properties of the notifier\<close>





text \<open>
  The batch sender of the cloud function is outside this policy: it makes at most one
  POST and never waits.
\<close>

lemma batch_sender_single_attempt:
  "posts (snd (sendRenewalWebhook_batch url post_outcome results)) \<le> 1 \<and>
   delays (snd (sendRenewalWebhook_batch url post_outcome results)) = [] \<and>
   fst (sendRenewalWebhook_batch url post_outcome results) = JUndefined"
  by (simp add: sendRenewalWebhook_batch_def split: sum.splits)



section \<open>Properties of the subscription manager\<close>






text \<open>
  Teardown reaches the store only when gmail-watch.js was loaded before auth.js, and
  then clears the subscription through \<open>updateWatchData\<close>; in the load order of server.js
  it throws when it asks for the OAuth client, with the store unchanged.
\<close>

lemma stopGmailWatch_clears:
  "stopGmailWatch L key lo S now cid db = (Inr r, db') \<Longrightarrow>
   lo = gmail_watch_first \<and> updateWatchData now (fs_update_fault S) cid None db = Inr db'"
  by (auto simp: stopGmailWatch_def getOAuth2Client_def
           split: sum.splits option.splits load_order.splits)

lemma stopGmailWatch_server_load_order:
  "getClientById L key (fs_get_fault S) cid db = Inr (Some client) \<Longrightarrow>
   stopGmailWatch L key server_load_order S now cid db =
     (Inl (JsError ''TypeError'' ''getOAuth2Client is not a function''), db)"
  by (simp add: stopGmailWatch_def getOAuth2Client_def server_load_order_def)

text \<open>
  C8, amended. Neither renewal function raises: every failure inside is turned into a
  returned object, and the store is left as it was. The rows below follow the two
  functions step by step.

  \<open>renewWatch\<close>, which the batch calls with the account document: if decrypting the
  tokens, finding or creating the topic, the Gmail call or the store update fails with
  \<open>e\<close>, the result is \<open>{success: false, clientId, gmailAddress, error: e.message,
  renewedAt}\<close>; otherwise it is \<open>{success: true, clientId, gmailAddress, newExpiration,
  renewedAt}\<close> with the expiry the Gmail call returned, which is also written to the
  account with \<open>lastRenewed\<close>.

  \<open>renewGmailWatch\<close>, called with the account identifier: if loading the account fails,
  the account is missing, the OAuth client cannot be had, or a later step fails with
  \<open>e\<close>, the result is \<open>{success: false, clientId, error: e.message, renewedAt}\<close>, without
  the mailbox address; otherwise it is \<open>{success: true, clientId, gmailAddress,
  watchData, renewedAt}\<close>, the new expiry being inside \<open>watchData\<close>, and the account
  is updated with it and with \<open>lastRenewed\<close>. In the load order of server.js the OAuth
  client cannot be had: there \<open>renewGmailWatch\<close> fails on every existing account, with
  the message \<open>getOAuth2Client is not a function\<close>.
\<close>

theorem renew_results:
  assumes "F = (\<lambda>e. [(''success'', JBool False), (''clientId'', JStr (clientId client)),
                      (''gmailAddress'', JStr (gmailAddress client)),
                      (''error'', JStr (message e)), (''renewedAt'', JDate now)])"
    and "G = (\<lambda>e. [(''success'', JBool False), (''clientId'', JStr cid),
                    (''error'', JStr (message e)), (''renewedAt'', JDate now)])"
    and "tn = topic_of prefix (clientId client) (watchData client)"
    and "tn' = topic_of prefix cid (watchData acct)"
    and "wd = \<lparr> historyId = w_historyId w, expiration = w_expiration w, topicName = tn \<rparr>"
    and "wd' = \<lparr> historyId = w_historyId w, expiration = w_expiration w, topicName = tn' \<rparr>"
  shows
    "(decryptTokens L key (tokens client) = Inl e \<longrightarrow>
        renewWatch L key prefix project S now client db topics = (Inr (F e), db, topics)) \<and>
     (decryptTokens L key (tokens client) = Inr toks \<and>
      createPubSubTopic S tn topics = (Inl e, tp) \<longrightarrow>
        renewWatch L key prefix project S now client db topics = (Inr (F e), db, tp)) \<and>
     (decryptTokens L key (tokens client) = Inr toks \<and>
      createPubSubTopic S tn topics = (Inr x, tp) \<and>
      users_watch S toks (fullTopicName project tn) = Inl e \<longrightarrow>
        renewWatch L key prefix project S now client db topics = (Inr (F e), db, tp)) \<and>
     (decryptTokens L key (tokens client) = Inr toks \<and>
      createPubSubTopic S tn topics = (Inr x, tp) \<and>
      users_watch S toks (fullTopicName project tn) = Inr w \<and>
      fs_update_fault S = Some e \<longrightarrow>
        renewWatch L key prefix project S now client db topics = (Inr (F e), db, tp)) \<and>
     (decryptTokens L key (tokens client) = Inr toks \<and>
      createPubSubTopic S tn topics = (Inr x, tp) \<and>
      users_watch S toks (fullTopicName project tn) = Inr w \<and>
      fs_update_fault S = None \<and> db (clientId client) = None \<longrightarrow>
        renewWatch L key prefix project S now client db topics = (Inr (F NOT_FOUND), db, tp)) \<and>
     (decryptTokens L key (tokens client) = Inr toks \<and>
      createPubSubTopic S tn topics = (Inr x, tp) \<and>
      users_watch S toks (fullTopicName project tn) = Inr w \<and>
      fs_update_fault S = None \<and> db (clientId client) = Some d \<longrightarrow>
        renewWatch L key prefix project S now client db topics =
          (Inr [(''success'', JBool True), (''clientId'', JStr (clientId client)),
                (''gmailAddress'', JStr (gmailAddress client)),
                (''newExpiration'', JDate (w_expiration w)), (''renewedAt'', JDate now)],
           db(clientId client \<mapsto>
                d \<lparr> watchData := Some wd, lastRenewed := Some now, updatedAt := Some now \<rparr>),
           tp)) \<and>
     (getClientById L key (fs_get_fault S) cid db = Inl e \<longrightarrow>
        renewGmailWatch L key lo prefix project S now cid db topics = (Inr (G e), db, topics)) \<and>
     (getClientById L key (fs_get_fault S) cid db = Inr None \<longrightarrow>
        renewGmailWatch L key lo prefix project S now cid db topics =
          (Inr (G (Error ''Client not found'')), db, topics)) \<and>
     (getClientById L key (fs_get_fault S) cid db = Inr (Some acct) \<and>
      getOAuth2Client lo = Inl e \<longrightarrow>
        renewGmailWatch L key lo prefix project S now cid db topics = (Inr (G e), db, topics)) \<and>
     (getClientById L key (fs_get_fault S) cid db = Inr (Some acct) \<and>
      getOAuth2Client lo = Inr u \<and>
      createPubSubTopic S tn' topics = (Inl e, tp) \<longrightarrow>
        renewGmailWatch L key lo prefix project S now cid db topics = (Inr (G e), db, tp)) \<and>
     (getClientById L key (fs_get_fault S) cid db = Inr (Some acct) \<and>
      getOAuth2Client lo = Inr u \<and>
      createPubSubTopic S tn' topics = (Inr x, tp) \<and>
      users_watch S (tokens acct) (fullTopicName project tn') = Inl e \<longrightarrow>
        renewGmailWatch L key lo prefix project S now cid db topics = (Inr (G e), db, tp)) \<and>
     (getClientById L key (fs_get_fault S) cid db = Inr (Some acct) \<and>
      getOAuth2Client lo = Inr u \<and>
      createPubSubTopic S tn' topics = (Inr x, tp) \<and>
      users_watch S (tokens acct) (fullTopicName project tn') = Inr w \<and>
      updateWatchData now (fs_update_fault S) cid (Some wd') db = Inl e \<longrightarrow>
        renewGmailWatch L key lo prefix project S now cid db topics = (Inr (G e), db, tp)) \<and>
     (getClientById L key (fs_get_fault S) cid db = Inr (Some acct) \<and>
      getOAuth2Client lo = Inr u \<and>
      createPubSubTopic S tn' topics = (Inr x, tp) \<and>
      users_watch S (tokens acct) (fullTopicName project tn') = Inr w \<and>
      updateWatchData now (fs_update_fault S) cid (Some wd') db = Inr db' \<longrightarrow>
        renewGmailWatch L key lo prefix project S now cid db topics =
          (Inr [(''success'', JBool True), (''clientId'', JStr cid),
                (''gmailAddress'', JStr (gmailAddress acct)),
                (''watchData'',
                 JObj [(''historyId'', JStr (w_historyId w)),
                       (''expiration'', JDate (w_expiration w)),
                       (''topicName'', JStr tn')]),
                (''renewedAt'', JDate now)],
           db', tp) \<and>
        map_option watchData (db' cid) = Some (Some wd') \<and>
        map_option lastRenewed (db' cid) = Some (Some now)) \<and>
     (\<exists>r db1 tp1. renewWatch L key prefix project S now client db topics = (Inr r, db1, tp1)) \<and>
     (\<exists>r db1 tp1.
        renewGmailWatch L key lo prefix project S now cid db topics = (Inr r, db1, tp1)) \<and>
     (getClientById L key (fs_get_fault S) cid db = Inr (Some acct) \<longrightarrow>
        renewGmailWatch L key server_load_order prefix project S now cid db topics =
          (Inr (G (JsError ''TypeError'' ''getOAuth2Client is not a function'')), db, topics))"
proof -
  have stamped: "map_option watchData (db' cid) = Some (Some wd') \<and>
                 map_option lastRenewed (db' cid) = Some (Some now)"
    if "updateWatchData now (fs_update_fault S) cid (Some wd') db = Inr db'"
    using updateWatchData_result[OF that] by auto
  have never1: "\<exists>r db1 tp1.
      renewWatch L key prefix project S now client db topics = (Inr r, db1, tp1)"
    by (simp add: renewWatch_def split: prod.splits sum.splits)
  have never2: "\<exists>r db1 tp1.
      renewGmailWatch L key lo prefix project S now cid db topics = (Inr r, db1, tp1)"
    by (simp add: renewGmailWatch_def split: prod.splits sum.splits)
  have server: "renewGmailWatch L key server_load_order prefix project S now cid db topics =
      (Inr (G (JsError ''TypeError'' ''getOAuth2Client is not a function'')), db, topics)"
    if "getClientById L key (fs_get_fault S) cid db = Inr (Some acct)"
    using that
    by (simp add: assms(2) renewGmailWatch_def renewGmailWatch_try_def getOAuth2Client_def
          server_load_order_def)
  show ?thesis
    using stamped never1 never2 server
    by (simp add: assms renewWatch_def renewWatch_try_def renewGmailWatch_def
          renewGmailWatch_try_def doc_update_def Let_def js_watch_data_def)
qed

lemma sample_client_no_refresh_fields:
  "clientId sample_client_no_refresh = ''c1''"
  "tokens sample_client_no_refresh =
     Some \<lparr> access_token = ''ya29.a0'', refresh_token = None,
            expiry_date = Some 1700003600000 \<rparr>"
  "gmailAddress sample_client_no_refresh = ''ann@gmail.com''"
  "watchData sample_client_no_refresh = None"
  by (simp_all add: sample_client_no_refresh_def sample_client_def)

lemma getClientById_sample:
  "getClientById stub_cryptojs None (fs_get_fault (sample_services now)) ''c1''
     [''c1'' \<mapsto> sample_client] = Inr (Some sample_client)"
  by (simp add: getClientById_def doc_get_def decryptTokens_def decrypt_def truthy_simps
        sample_services_def sample_client_def sample_tokens_def)

lemma createPubSubTopic_sample:
  "createPubSubTopic (sample_services now) ''gmail-watch-c1'' {} =
     (Inr ''gmail-watch-c1'', {''gmail-watch-c1''})"
  by (simp add: createPubSubTopic_def sample_services_def)

theorem renew_results_witness:
  "renewWatch stub_cryptojs None ''gmail-watch-'' (Some ''proj'') (sample_services 1700000900000)
     1700000900000 sample_client [''c1'' \<mapsto> sample_client] {} =
     (Inr [(''success'', JBool True), (''clientId'', JStr ''c1''),
           (''gmailAddress'', JStr ''ann@gmail.com''),
           (''newExpiration'', JDate 1700605700000), (''renewedAt'', JDate 1700000900000)],
      [''c1'' \<mapsto> sample_client
         \<lparr> watchData := Some \<lparr> historyId = ''4242'', expiration = 1700605700000,
                                 topicName = ''gmail-watch-c1'' \<rparr>,
           lastRenewed := Some 1700000900000, updatedAt := Some 1700000900000 \<rparr>],
      {''gmail-watch-c1''}) \<and>
   renewWatch stub_cryptojs None ''gmail-watch-'' (Some ''proj'') (sample_services 1700003700000)
     1700003700000 sample_client_no_refresh [''c1'' \<mapsto> sample_client_no_refresh] {} =
     (Inr [(''success'', JBool False), (''clientId'', JStr ''c1''),
           (''gmailAddress'', JStr ''ann@gmail.com''),
           (''error'', JStr ''No refresh token is set.''),
           (''renewedAt'', JDate 1700003700000)],
      [''c1'' \<mapsto> sample_client_no_refresh], {''gmail-watch-c1''}) \<and>
   renewGmailWatch stub_cryptojs None server_load_order ''gmail-watch-'' (Some ''proj'')
     (sample_services 1700000900000) 1700000900000 ''c1'' [''c1'' \<mapsto> sample_client] {} =
     (Inr [(''success'', JBool False), (''clientId'', JStr ''c1''),
           (''error'', JStr ''getOAuth2Client is not a function''),
           (''renewedAt'', JDate 1700000900000)],
      [''c1'' \<mapsto> sample_client], {}) \<and>
   renewGmailWatch stub_cryptojs None gmail_watch_first ''gmail-watch-'' (Some ''proj'')
     (sample_services 1700000900000) 1700000900000 ''c1'' [''c1'' \<mapsto> sample_client] {} =
     (Inr [(''success'', JBool True), (''clientId'', JStr ''c1''),
           (''gmailAddress'', JStr ''ann@gmail.com''),
           (''watchData'',
            JObj [(''historyId'', JStr ''4242''), (''expiration'', JDate 1700605700000),
                  (''topicName'', JStr ''gmail-watch-c1'')]),
           (''renewedAt'', JDate 1700000900000)],
      [''c1'' \<mapsto> sample_client
         \<lparr> watchData := Some \<lparr> historyId = ''4242'', expiration = 1700605700000,
                                 topicName = ''gmail-watch-c1'' \<rparr>,
           lastRenewed := Some 1700000900000, updatedAt := Some 1700000900000 \<rparr>],
      {''gmail-watch-c1''})"
proof -
  let ?w = "\<lparr> w_historyId = ''4242'', w_expiration = 1700605700000 \<rparr>"
  let ?wd = "\<lparr> historyId = ''4242'', expiration = 1700605700000,
                topicName = ''gmail-watch-c1'' \<rparr>"
  let ?db = "[''c1'' \<mapsto> sample_client]"
  let ?db' = "[''c1'' \<mapsto> sample_client
                \<lparr> watchData := Some ?wd, lastRenewed := Some 1700000900000,
                  updatedAt := Some 1700000900000 \<rparr>]"
  let ?nr = "Some \<lparr> access_token = ''ya29.a0'', refresh_token = None,
                    expiry_date = Some 1700003600000 \<rparr>"
  have tn1: "''gmail-watch-c1'' =
               topic_of ''gmail-watch-'' (clientId sample_client) (watchData sample_client)"
    and tn2: "''gmail-watch-c1'' =
               topic_of ''gmail-watch-'' (clientId sample_client_no_refresh)
                 (watchData sample_client_no_refresh)"
    and tn3: "''gmail-watch-c1'' = topic_of ''gmail-watch-'' ''c1'' (watchData sample_client)"
    by (simp_all add: topic_of_def sample_client_fields sample_client_no_refresh_fields)
  have wd: "?wd = \<lparr> historyId = w_historyId ?w, expiration = w_expiration ?w,
                      topicName = ''gmail-watch-c1'' \<rparr>"
    by simp
  have a: "decryptTokens stub_cryptojs None (tokens sample_client) = Inr (Some sample_tokens) \<and>
           createPubSubTopic (sample_services 1700000900000) ''gmail-watch-c1'' {} =
             (Inr ''gmail-watch-c1'', {''gmail-watch-c1''}) \<and>
           users_watch (sample_services 1700000900000) (Some sample_tokens)
             (fullTopicName (Some ''proj'') ''gmail-watch-c1'') = Inr ?w \<and>
           fs_update_fault (sample_services 1700000900000) = None \<and>
           ?db (clientId sample_client) = Some sample_client"
    by (simp add: createPubSubTopic_sample)
       (simp add: decryptTokens_def decrypt_def truthy_simps sample_services_def sample_gmail_def
          sample_client_def sample_tokens_def)
  have b: "decryptTokens stub_cryptojs None (tokens sample_client_no_refresh) = Inr ?nr \<and>
           createPubSubTopic (sample_services 1700003700000) ''gmail-watch-c1'' {} =
             (Inr ''gmail-watch-c1'', {''gmail-watch-c1''}) \<and>
           users_watch (sample_services 1700003700000) ?nr
             (fullTopicName (Some ''proj'') ''gmail-watch-c1'') =
             Inl (Error ''No refresh token is set.'')"
    by (simp add: createPubSubTopic_sample)
       (simp add: decryptTokens_def decrypt_def truthy_simps sample_services_def sample_gmail_def
          sample_client_no_refresh_fields)
  have c: "getClientById stub_cryptojs None (fs_get_fault (sample_services 1700000900000)) ''c1''
             ?db = Inr (Some sample_client) \<and>
           getOAuth2Client server_load_order =
             Inl (JsError ''TypeError'' ''getOAuth2Client is not a function'')"
    by (simp add: getClientById_sample getOAuth2Client_def server_load_order_def)
  have d: "getClientById stub_cryptojs None (fs_get_fault (sample_services 1700000900000)) ''c1''
             ?db = Inr (Some sample_client) \<and>
           getOAuth2Client gmail_watch_first = Inr () \<and>
           createPubSubTopic (sample_services 1700000900000) ''gmail-watch-c1'' {} =
             (Inr ''gmail-watch-c1'', {''gmail-watch-c1''}) \<and>
           users_watch (sample_services 1700000900000) (tokens sample_client)
             (fullTopicName (Some ''proj'') ''gmail-watch-c1'') = Inr ?w \<and>
           updateWatchData 1700000900000 (fs_update_fault (sample_services 1700000900000)) ''c1''
             (Some ?wd) ?db = Inr ?db'"
    by (simp add: getClientById_sample createPubSubTopic_sample getOAuth2Client_def)
       (simp add: sample_services_def sample_gmail_def sample_client_def sample_tokens_def
          truthy_simps updateWatchData_def doc_update_def)
  note r1 = renew_results[where client = sample_client and now = 1700000900000
      and prefix = "''gmail-watch-''" and tn = "''gmail-watch-c1''" and w = ?w and wd = ?wd
      and L = stub_cryptojs and key = None and project = "Some ''proj''"
      and S = "sample_services 1700000900000" and db = ?db and topics = "{}"
      and toks = "Some sample_tokens" and x = "''gmail-watch-c1''"
      and tp = "{''gmail-watch-c1''}" and d = sample_client,
      OF refl refl tn1 refl wd refl]
  note r2 = renew_results[where client = sample_client_no_refresh and now = 1700003700000
      and prefix = "''gmail-watch-''" and tn = "''gmail-watch-c1''"
      and L = stub_cryptojs and key = None and project = "Some ''proj''"
      and S = "sample_services 1700003700000" and db = "[''c1'' \<mapsto> sample_client_no_refresh]"
      and topics = "{}" and toks = ?nr and x = "''gmail-watch-c1''"
      and tp = "{''gmail-watch-c1''}" and e = "Error ''No refresh token is set.''",
      OF refl refl tn2 refl refl refl]
  note r3 = renew_results[where cid = "''c1''" and now = 1700000900000
      and prefix = "''gmail-watch-''" and L = stub_cryptojs and key = None
      and project = "Some ''proj''" and S = "sample_services 1700000900000" and db = ?db
      and topics = "{}" and lo = server_load_order and acct = sample_client
      and e = "JsError ''TypeError'' ''getOAuth2Client is not a function''",
      OF refl refl refl refl refl refl]
  note r4 = renew_results[where cid = "''c1''" and now = 1700000900000
      and prefix = "''gmail-watch-''" and tn' = "''gmail-watch-c1''" and w = ?w and wd' = ?wd
      and L = stub_cryptojs and key = None and project = "Some ''proj''"
      and S = "sample_services 1700000900000" and db = ?db and topics = "{}"
      and lo = gmail_watch_first and acct = sample_client and u = "()"
      and x = "''gmail-watch-c1''" and tp = "{''gmail-watch-c1''}" and db' = ?db',
      OF refl refl refl tn3 refl wd]
  have 1: "renewWatch stub_cryptojs None ''gmail-watch-'' (Some ''proj'')
             (sample_services 1700000900000) 1700000900000 sample_client ?db {} =
           (Inr [(''success'', JBool True), (''clientId'', JStr ''c1''),
                 (''gmailAddress'', JStr ''ann@gmail.com''),
                 (''newExpiration'', JDate 1700605700000),
                 (''renewedAt'', JDate 1700000900000)],
            ?db', {''gmail-watch-c1''})"
    using r1[THEN conjunct2, THEN conjunct2, THEN conjunct2, THEN conjunct2, THEN conjunct2,
             THEN conjunct1, rule_format, OF a]
    by (simp add: sample_client_fields)
  have 2: "renewWatch stub_cryptojs None ''gmail-watch-'' (Some ''proj'')
             (sample_services 1700003700000) 1700003700000 sample_client_no_refresh
             [''c1'' \<mapsto> sample_client_no_refresh] {} =
           (Inr [(''success'', JBool False), (''clientId'', JStr ''c1''),
                 (''gmailAddress'', JStr ''ann@gmail.com''),
                 (''error'', JStr ''No refresh token is set.''),
                 (''renewedAt'', JDate 1700003700000)],
            [''c1'' \<mapsto> sample_client_no_refresh], {''gmail-watch-c1''})"
    using r2[THEN conjunct2, THEN conjunct2, THEN conjunct1, rule_format, OF b]
    by (simp add: sample_client_no_refresh_fields Error_def)
  have 3: "renewGmailWatch stub_cryptojs None server_load_order ''gmail-watch-'' (Some ''proj'')
             (sample_services 1700000900000) 1700000900000 ''c1'' ?db {} =
           (Inr [(''success'', JBool False), (''clientId'', JStr ''c1''),
                 (''error'', JStr ''getOAuth2Client is not a function''),
                 (''renewedAt'', JDate 1700000900000)],
            ?db, {})"
    using r3[THEN conjunct2, THEN conjunct2, THEN conjunct2, THEN conjunct2, THEN conjunct2,
             THEN conjunct2, THEN conjunct2, THEN conjunct2, THEN conjunct1, rule_format, OF c]
    by simp
  have 4: "renewGmailWatch stub_cryptojs None gmail_watch_first ''gmail-watch-'' (Some ''proj'')
             (sample_services 1700000900000) 1700000900000 ''c1'' ?db {} =
           (Inr [(''success'', JBool True), (''clientId'', JStr ''c1''),
                 (''gmailAddress'', JStr ''ann@gmail.com''),
                 (''watchData'',
                  JObj [(''historyId'', JStr ''4242''), (''expiration'', JDate 1700605700000),
                        (''topicName'', JStr ''gmail-watch-c1'')]),
                 (''renewedAt'', JDate 1700000900000)],
            ?db', {''gmail-watch-c1''})"
    using r4[THEN conjunct2, THEN conjunct2, THEN conjunct2, THEN conjunct2, THEN conjunct2,
             THEN conjunct2, THEN conjunct2, THEN conjunct2, THEN conjunct2, THEN conjunct2,
             THEN conjunct2, THEN conjunct2, THEN conjunct1, rule_format, OF d,
             THEN conjunct1]
    by (simp add: sample_client_fields)
  from 1 2 3 4 show ?thesis
    by (intro conjI)
qed

text \<open>
  C8, as stated: the result of renewing by account identifier always carries the mailbox
  address. It is false: renewing the identifier \<open>c9\<close> on an empty store fails with
  \<open>Client not found\<close>, and the result has the fields \<open>success\<close>, \<open>clientId\<close>, \<open>error\<close>
  and \<open>renewedAt\<close> only.
\<close>

theorem renew_result_shape_counterexample:
  "\<not> (\<forall>(L :: string cryptojs) key lo prefix project S now cid db topics.
        \<exists>r db' tp.
          renewGmailWatch L key lo prefix project S now cid db topics = (Inr r, db', tp) \<and>
          ''gmailAddress'' \<in> set (keys r))"
proof
  assume a: "\<forall>(L :: string cryptojs) key lo prefix project S now cid db topics.
        \<exists>r db' tp.
          renewGmailWatch L key lo prefix project S now cid db topics = (Inr r, db', tp) \<and>
          ''gmailAddress'' \<in> set (keys r)"
  have r: "renewGmailWatch stub_cryptojs None gmail_watch_first ''gmail-watch-'' (Some ''proj'')
             (sample_services 1700000009000) 1700000009000 ''c9'' Map.empty {} =
           (Inr [(''success'', JBool False), (''clientId'', JStr ''c9''),
                 (''error'', JStr ''Client not found''), (''renewedAt'', JDate 1700000009000)],
            Map.empty, {})"
    by (simp add: renewGmailWatch_def renewGmailWatch_try_def getClientById_def doc_get_def
          sample_services_def Error_def)
  have "\<exists>r db' tp. renewGmailWatch stub_cryptojs None gmail_watch_first ''gmail-watch-''
           (Some ''proj'') (sample_services 1700000009000) 1700000009000 ''c9'' Map.empty {}
             = (Inr r, db', tp) \<and>
          ''gmailAddress'' \<in> set (keys r)"
    by (rule a[rule_format])
  then show False
    unfolding r by (simp add: keys_def)
qed





section \<open>Properties of the OAuth flow controller\<close>

lemma auth_google_session:
  "snd (auth_google gen st sq sess0) =
     Some \<lparr> rd_email = q_email sq, rd_name = q_name sq,
            rd_company = (if truthy (q_company sq) then the (q_company sq) else []),
            rd_state = st \<rparr>"
  by (simp add: auth_google_def Let_def split: sum.splits)

lemma saveClient_Inr:
  "saveClient L key s1 s2 now fault cd db = Inr (r, db') \<Longrightarrow>
   \<exists>t. tokens cd = Some t \<and>
       db' = db(clientId cd \<mapsto> cd \<lparr> tokens := Some (encryptTokens L key s1 s2 t),
                                       updatedAt := Some now \<rparr>)"
  by (auto simp: saveClient_def doc_set_merge_def Let_def split: option.splits sum.splits)

lemma auth_callback_completed:
  assumes "cb_response (auth_callback L key s1 s2 P new_id now fault q sess db) = Redirect_success g ts"
  shows "\<exists>rd toks. \<not> truthy (q_error q) \<and> sess = Some rd \<and> Some (rd_state rd) = q_state q \<and>
           getToken P (q_code q) = Inr toks \<and> userinfo_email P toks = Inr g \<and>
           cb_db (auth_callback L key s1 s2 P new_id now fault q sess db) =
             db(new_id \<mapsto>
                \<lparr> clientId = new_id, email = rd_email rd, name = rd_name rd,
                  company = rd_company rd, gmailAddress = g,
                  tokens = Some (encryptTokens L key s1 s2
                                  \<lparr> access_token = access_token toks,
                                    refresh_token = refresh_token toks,
                                    expiry_date = expiry_date toks \<rparr>),
                  registeredAt = now, lastRenewed = None, watchData = None,
                  updatedAt = Some now \<rparr>)"
proof -
  let ?res = "auth_callback L key s1 s2 P new_id now fault q sess db"
  from assms have ne: "\<not> truthy (q_error q)"
    by (auto simp: auth_callback_def Let_def)
  from assms ne obtain rd where rd: "sess = Some rd"
    by (cases sess) (auto simp: auth_callback_def Let_def csrf_response_def)
  from assms ne rd have st: "Some (rd_state rd) = q_state q"
    by (auto simp: auth_callback_def Let_def csrf_response_def split: if_splits)
  from assms ne rd st obtain toks where toks: "getToken P (q_code q) = Inr toks"
    by (cases "getToken P (q_code q)") (auto simp: auth_callback_def Let_def)
  from assms ne rd st toks obtain g' where g': "userinfo_email P toks = Inr g'"
    by (cases "userinfo_email P toks") (auto simp: auth_callback_def Let_def)
  let ?cd = "\<lparr> clientId = new_id, email = rd_email rd, name = rd_name rd,
                company = rd_company rd, gmailAddress = g',
                tokens = Some \<lparr> access_token = access_token toks,
                                refresh_token = refresh_token toks,
                                expiry_date = expiry_date toks \<rparr>,
                registeredAt = now, lastRenewed = None, watchData = None,
                updatedAt = None \<rparr>"
  from assms ne rd st toks g' obtain saved db' where
    sv: "saveClient L key s1 s2 now fault ?cd db = Inr (saved, db')"
    by (cases "saveClient L key s1 s2 now fault ?cd db")
       (auto simp: auth_callback_def Let_def)
  from assms ne rd st toks g' sv have gg: "g' = g"
    by (simp add: auth_callback_def Let_def)
  from ne rd st toks g' sv have db: "cb_db ?res = db'"
    by (simp add: auth_callback_def Let_def)
  from saveClient_Inr[OF sv] have "db' = db(new_id \<mapsto> ?cd \<lparr> tokens := Some (encryptTokens L key s1 s2
                                  \<lparr> access_token = access_token toks,
                                    refresh_token = refresh_token toks,
                                    expiry_date = expiry_date toks \<rparr>),
                                       updatedAt := Some now \<rparr>)"
    by simp
  with ne rd st toks g' gg db show ?thesis
    by simp
qed

text \<open>
  C1. A handshake is the start request, which binds the client's query parameters to
  the session, followed by a callback that ends in the redirect to the success page.
  The account such a callback stores under the new identifier has as \<open>gmailAddress\<close> the
  email the profile endpoint returned for the tokens just exchanged, and as \<open>email\<close>
  the email parameter of the start request; no other account is touched. The mailbox
  address is never taken from the client: had the client supplied any other email
  \<open>e'\<close>, the stored account would have the same \<open>gmailAddress\<close>, and would differ in its
  \<open>email\<close> field only; and an email the client supplied that is not the profile's is
  not the stored \<open>gmailAddress\<close>.
\<close>

theorem callback_mailbox_from_profile:
  assumes "sess = snd (auth_google gen st sq sess0)"
    and "res = auth_callback L key s1 s2 P new_id now fault q sess db"
    and "cb_response res = Redirect_success g ts"
  shows "(\<exists>toks. getToken P (q_code q) = Inr toks \<and> userinfo_email P toks = Inr g) \<and>
         map_option gmailAddress (cb_db res new_id) = Some g \<and>
         map_option email (cb_db res new_id) = Some (q_email sq) \<and>
         (\<forall>c. c \<noteq> new_id \<longrightarrow> cb_db res c = db c) \<and>
         (\<forall>e'. map_option gmailAddress
                 (cb_db (auth_callback L key s1 s2 P new_id now fault q
                           (snd (auth_google gen st (sq \<lparr> q_email := e' \<rparr>) sess0)) db) new_id)
               = Some g) \<and>
         (\<forall>e'. cb_db (auth_callback L key s1 s2 P new_id now fault q
                       (snd (auth_google gen st (sq \<lparr> q_email := e' \<rparr>) sess0)) db) new_id
               = map_option (\<lambda>d. d \<lparr> email := e' \<rparr>) (cb_db res new_id)) \<and>
         (q_email sq \<noteq> Some g \<longrightarrow>
            map_option (\<lambda>d. Some (gmailAddress d)) (cb_db res new_id) \<noteq> Some (q_email sq))"
proof -
  from auth_callback_completed[OF assms(3)[unfolded assms(2)]]
  obtain rd toks where
    ne: "\<not> truthy (q_error q)" and rd: "sess = Some rd" and st: "Some (rd_state rd) = q_state q" and
    toks: "getToken P (q_code q) = Inr toks" and g: "userinfo_email P toks = Inr g" and
    db: "cb_db res =
           db(new_id \<mapsto>
                \<lparr> clientId = new_id, email = rd_email rd, name = rd_name rd,
                  company = rd_company rd, gmailAddress = g,
                  tokens = Some (encryptTokens L key s1 s2
                                  \<lparr> access_token = access_token toks,
                                    refresh_token = refresh_token toks,
                                    expiry_date = expiry_date toks \<rparr>),
                  registeredAt = now, lastRenewed = None, watchData = None,
                  updatedAt = Some now \<rparr>)"
    unfolding assms(2) by blast
  from rd assms(1) have e: "rd_email rd = q_email sq" and s: "rd_state rd = st"
    by (auto simp: auth_google_session)
  have fault: "fault = None"
  proof (cases fault)
    case (Some e)
    with assms(2,3) show ?thesis
      by (auto simp: auth_callback_def Let_def saveClient_def doc_set_merge_def csrf_response_def
               split: if_splits option.splits sum.splits)
  qed simp
  have other: "map_option gmailAddress
                 (cb_db (auth_callback L key s1 s2 P new_id now fault q
                           (snd (auth_google gen st (sq \<lparr> q_email := e' \<rparr>) sess0)) db) new_id)
               = Some g" for e'
    using ne st s toks g fault
    by (simp add: auth_google_session auth_callback_def Let_def saveClient_def doc_set_merge_def)
  have only_email: "cb_db (auth_callback L key s1 s2 P new_id now fault q
                       (snd (auth_google gen st (sq \<lparr> q_email := e' \<rparr>) sess0)) db) new_id
               = map_option (\<lambda>d. d \<lparr> email := e' \<rparr>) (cb_db res new_id)" for e'
  proof -
    have rdv: "rd = \<lparr> rd_email = q_email sq, rd_name = q_name sq,
                       rd_company = (if truthy (q_company sq) then the (q_company sq) else []),
                       rd_state = st \<rparr>"
      using rd assms(1) by (simp add: auth_google_session)
    have "cb_db (auth_callback L key s1 s2 P new_id now fault q
                   (snd (auth_google gen st (sq \<lparr> q_email := e' \<rparr>) sess0)) db) new_id
            = Some \<lparr> clientId = new_id, email = e', name = rd_name rd,
                  company = rd_company rd, gmailAddress = g,
                  tokens = Some (encryptTokens L key s1 s2
                                  \<lparr> access_token = access_token toks,
                                    refresh_token = refresh_token toks,
                                    expiry_date = expiry_date toks \<rparr>),
                  registeredAt = now, lastRenewed = None, watchData = None,
                  updatedAt = Some now \<rparr>"
      using ne st s toks g fault
      by (simp add: rdv auth_google_session auth_callback_def Let_def saveClient_def
            doc_set_merge_def)
    then show ?thesis
      by (simp add: db)
  qed
  have "\<exists>toks. getToken P (q_code q) = Inr toks \<and> userinfo_email P toks = Inr g"
    using toks g by blast
  moreover have "map_option gmailAddress (cb_db res new_id) = Some g"
    by (simp add: db)
  moreover have "map_option email (cb_db res new_id) = Some (q_email sq)"
    by (simp add: db e)
  moreover have "\<forall>c. c \<noteq> new_id \<longrightarrow> cb_db res c = db c"
    by (simp add: db)
  moreover have "q_email sq \<noteq> Some g \<longrightarrow>
            map_option (\<lambda>d. Some (gmailAddress d)) (cb_db res new_id) \<noteq> Some (q_email sq)"
    by (auto simp: db)
  ultimately show ?thesis
    using other only_email by blast
qed

theorem callback_mailbox_from_profile_witness:
  "map_option gmailAddress
     (cb_db (auth_callback stub_cryptojs (Some ''k1'') ''s1'' ''s2'' sample_provider ''c1''
               1700000000000 None sample_callback
               (snd (auth_google Inr ''st-1'' sample_start None)) Map.empty) ''c1'')
     = Some ''ann@gmail.com'' \<and>
   map_option email
     (cb_db (auth_callback stub_cryptojs (Some ''k1'') ''s1'' ''s2'' sample_provider ''c1''
               1700000000000 None sample_callback
               (snd (auth_google Inr ''st-1'' sample_start None)) Map.empty) ''c1'')
     = Some (Some ''owner@example.org'')"
proof -
  let ?sess = "snd (auth_google Inr ''st-1'' sample_start None)"
  let ?res = "auth_callback stub_cryptojs (Some ''k1'') ''s1'' ''s2'' sample_provider ''c1''
               1700000000000 None sample_callback ?sess Map.empty"
  have r: "cb_response ?res = Redirect_success ''ann@gmail.com'' 1700000000000"
    by (simp add: auth_google_session auth_callback_def Let_def sample_callback_def
          sample_provider_def saveClient_def doc_set_merge_def truthy_simps)
  note t = callback_mailbox_from_profile[OF refl refl r]
  have "q_email sample_start = Some ''owner@example.org''"
    by (simp add: sample_start_def)
  with t[THEN conjunct2, THEN conjunct1] t[THEN conjunct2, THEN conjunct2, THEN conjunct1]
  show ?thesis
    by simp
qed

text \<open>
  C2, as stated: a callback whose state does not match, or whose session has no
  binding, answers with the CSRF failure and leaves the store unchanged. The first half
  is false: the handler tests the \<open>error\<close> parameter before the state. The request
  \<open>/auth/callback?error=access_denied\<close> on a session without binding is answered with
  400 \<open>Authentication failed: access_denied\<close>.
\<close>

theorem csrf_with_error_counterexample:
  "\<not> (\<forall>(L :: string cryptojs) key s1 s2 P new_id now fault q sess db.
        (sess = None \<or> Some (rd_state (the sess)) \<noteq> q_state q) \<longrightarrow>
        cb_response (auth_callback L key s1 s2 P new_id now fault q sess db) = csrf_response \<and>
        cb_db (auth_callback L key s1 s2 P new_id now fault q sess db) = db)"
proof
  assume a: "\<forall>(L :: string cryptojs) key s1 s2 P new_id now fault q sess db.
        (sess = None \<or> Some (rd_state (the sess)) \<noteq> q_state q) \<longrightarrow>
        cb_response (auth_callback L key s1 s2 P new_id now fault q sess db) = csrf_response \<and>
        cb_db (auth_callback L key s1 s2 P new_id now fault q sess db) = db"
  let ?q = "\<lparr> q_code = None, q_state = None, q_error = Some ''access_denied'' \<rparr>"
  have "cb_response (auth_callback stub_cryptojs (Some ''k1'') ''s1'' ''s2'' sample_provider ''c1''
                       1700000000000 None ?q None Map.empty) = csrf_response \<and>
        cb_db (auth_callback stub_cryptojs (Some ''k1'') ''s1'' ''s2'' sample_provider ''c1''
                       1700000000000 None ?q None Map.empty) = Map.empty"
    by (rule a[rule_format]) simp
  then show False
    by (simp add: auth_callback_def Let_def truthy_simps csrf_response_def)
qed

text \<open>
  C2, amended. A callback whose state does not match the session's, or whose session
  has no binding, never creates an account: the store and the session are unchanged
  and nothing is started. Its response is the CSRF failure when the request carries no
  (non-empty) \<open>error\<close> parameter, and the 400 response naming that error when it does.
\<close>

theorem state_mismatch_terminal:
  assumes "sess = None \<or> Some (rd_state (the sess)) \<noteq> q_state q"
    and "res = auth_callback L key s1 s2 P new_id now fault q sess db"
  shows "cb_db res = db \<and> cb_tasks res = [] \<and> cb_session res = sess \<and>
         cb_response res =
           (if truthy (q_error q) then Send 400 (''Authentication failed: '' @ the (q_error q))
            else csrf_response)"
  using assms by (auto simp: auth_callback_def Let_def split: option.splits)

theorem state_mismatch_terminal_witness:
  "cb_response (auth_callback stub_cryptojs (Some ''k1'') ''s1'' ''s2'' sample_provider ''c1''
                  1700000000000 None (sample_callback \<lparr> q_state := Some ''forged'' \<rparr>)
                  (snd (auth_google Inr ''st-1'' sample_start None)) Map.empty)
     = Send 400 ''Invalid state parameter. Possible CSRF attack.'' \<and>
   cb_db (auth_callback stub_cryptojs (Some ''k1'') ''s1'' ''s2'' sample_provider ''c1''
                  1700000000000 None (sample_callback \<lparr> q_state := Some ''forged'' \<rparr>)
                  (snd (auth_google Inr ''st-1'' sample_start None)) Map.empty) = Map.empty"
proof -
  let ?q = "sample_callback \<lparr> q_state := Some ''forged'' \<rparr>"
  let ?sess = "snd (auth_google Inr ''st-1'' sample_start None)"
  have h: "?sess = None \<or> Some (rd_state (the ?sess)) \<noteq> q_state ?q"
    by (simp add: auth_google_session)
  from state_mismatch_terminal[where L = stub_cryptojs and key = "Some ''k1''" and ?s1.0 = "''s1''"
         and ?s2.0 = "''s2''" and P = sample_provider and new_id = "''c1''"
         and now = 1700000000000 and fault = None and db = Map.empty, OF h refl]
  show ?thesis
    by (simp add: sample_callback_def truthy_simps csrf_response_def)
qed

section \<open>Properties of the push endpoint\<close>

text \<open>
  C3, as stated: every request is answered with a 2xx status. It is false: a body
  without \<open>message\<close> is answered with 400.
\<close>

theorem push_not_always_acknowledged_counterexample:
  "\<not> (\<forall>atob parse body. is_2xx (status_of (pubsub_push atob parse body)))"
proof
  assume a: "\<forall>atob parse body. is_2xx (status_of (pubsub_push atob parse body))"
  have "is_2xx (status_of (pubsub_push id (\<lambda>s. Inr JNull) \<lparr> body_message = None \<rparr>))"
    by (rule a[rule_format])
  then show False
    by (simp add: pubsub_push_def is_2xx_def)
qed

text \<open>
  C3, amended. The handler answers 2xx (200 \<open>OK\<close>) exactly when the body has a message
  with non-empty data whose base64 decoding parses as JSON; 400 exactly when the
  message or its data is missing or empty; 500 exactly when the decoded data does not
  parse.
\<close>

theorem push_endpoint_status:
  "(is_2xx (status_of (pubsub_push atob parse body)) \<longleftrightarrow>
      (\<exists>m d n. body_message body = Some m \<and> msg_data m = Some d \<and> d \<noteq> [] \<and>
               parse (atob d) = Inr n)) \<and>
   (status_of (pubsub_push atob parse body) = 400 \<longleftrightarrow>
      (body_message body = None \<or> (\<exists>m. body_message body = Some m \<and> truthy (msg_data m) = False))) \<and>
   (status_of (pubsub_push atob parse body) = 500 \<longleftrightarrow>
      (\<exists>m d e. body_message body = Some m \<and> msg_data m = Some d \<and> d \<noteq> [] \<and>
               parse (atob d) = Inl e))"
  by (auto simp: pubsub_push_def is_2xx_def truthy_def split: option.splits sum.splits)

theorem push_endpoint_status_witness:
  "status_of (pubsub_push id (\<lambda>s. Inl (JsError ''SyntaxError'' ''Unexpected token''))
                \<lparr> body_message = Some \<lparr> msg_data = Some ''bm90IGpzb24='' \<rparr> \<rparr>) = 500"
  by (rule push_endpoint_status[THEN conjunct2, THEN conjunct2, THEN iffD2]) simp

end
